theory Spec2Isabelle
  imports Complex_Main
begin

section \<open>JavaScript values as the front end handles them\<close>

text \<open>
  The front end is TypeScript running on JavaScript values. A JavaScript number is
  either NaN, one of the two infinities, or a finite value; the finite values are
  modelled by reals (rounding and the sign of zero play no part in the functions below).
\<close>

datatype jsnum = NaN | PosInfinity | NegInfinity | Finite real

text \<open>
  The values that reach \<open>handleParamChange\<close> (typed \<open>any\<close>): the number input hands
  over \<open>number | null\<close>, the radio group a string; \<open>undefined\<close> and booleans are
  included because the function tests for them or converts them.
\<close>

datatype js_value = JUndefined | JNull | JBool bool | JNum jsnum | JStr string

datatype js_type = TUndefined | TObject | TBoolean | TNumber | TString

text \<open>JavaScript's \<open>typeof\<close>; \<open>typeof null\<close> is \<open>'object'\<close>.\<close>

fun typeof :: "js_value \<Rightarrow> js_type" where
  "typeof JUndefined = TUndefined"
| "typeof JNull = TObject"
| "typeof (JBool b) = TBoolean"
| "typeof (JNum n) = TNumber"
| "typeof (JStr s) = TString"

text \<open>
  JavaScript's \<open>Number(value)\<close>. The conversion of a string to a number is the
  language's own (StringToNumber); it is the parameter \<open>stringToNumber\<close>.
\<close>

fun Number :: "(string \<Rightarrow> jsnum) \<Rightarrow> js_value \<Rightarrow> jsnum" where
  "Number stringToNumber JUndefined = NaN"
| "Number stringToNumber JNull = Finite 0"
| "Number stringToNumber (JBool b) = (if b then Finite 1 else Finite 0)"
| "Number stringToNumber (JNum n) = n"
| "Number stringToNumber (JStr s) = stringToNumber s"

text \<open>\<open>isNaN\<close> applied to a number.\<close>

fun isNaN :: "jsnum \<Rightarrow> bool" where
  "isNaN NaN = True"
| "isNaN PosInfinity = False"
| "isNaN NegInfinity = False"
| "isNaN (Finite r) = False"

text \<open>\<open>isFinite\<close> applied to a number: neither NaN nor an infinity.\<close>

fun isFinite :: "jsnum \<Rightarrow> bool" where
  "isFinite NaN = False"
| "isFinite PosInfinity = False"
| "isFinite NegInfinity = False"
| "isFinite (Finite r) = True"

section \<open>The configuration parameters (ScheduleContext.tsx, PilePlanningPage.tsx)\<close>

text \<open>
  The keys of \<open>Omit<ScheduleRequestData, 'piles'>\<close>, in the order of
  \<open>defaultConfigParams\<close>. The configuration is a JavaScript object read and written
  by key, so it is a function from keys to values.
\<close>

datatype param =
    Num_machines
  | Duration_scenario
  | Weather_buffer_hours
  | Monte_carlo_simulations
  | Forbidden_duration_hours
  | Simultaneous_exclude_half_side
  | Forbidden_zone_diameter_multiplier
  | Num_zones
  | Zone_penalty_hours
  | Solver_num_workers
  | Solver_max_time

type_synonym config = "param \<Rightarrow> js_value"

fun defaultConfigParams :: config where
  "defaultConfigParams Num_machines = JNum (Finite 3)"
| "defaultConfigParams Duration_scenario = JStr ''expected''"
| "defaultConfigParams Weather_buffer_hours = JNum (Finite 0)"
| "defaultConfigParams Monte_carlo_simulations = JNum (Finite 1000)"
| "defaultConfigParams Forbidden_duration_hours = JNum (Finite 36)"
| "defaultConfigParams Simultaneous_exclude_half_side = JNum (Finite 10)"
| "defaultConfigParams Forbidden_zone_diameter_multiplier = JNum (Finite 12)"
| "defaultConfigParams Num_zones = JNum (Finite 3)"
| "defaultConfigParams Zone_penalty_hours = JNum (Finite 10)"
| "defaultConfigParams Solver_num_workers = JNum (Finite 6)"
| "defaultConfigParams Solver_max_time = JNum (Finite 360)"

text \<open>
  \<open>updateConfigParam\<close> queues \<open>setConfigParams(prev => ({ ...prev, [param]: value }))\<close>:
  the new state is the state \<open>prev\<close> it is applied to, with the one key overwritten.
\<close>

definition updateConfigParam :: "param \<Rightarrow> js_value \<Rightarrow> config \<Rightarrow> config" where
  "updateConfigParam p v prev = prev(p := v)"

text \<open>
  \<open>handleParamChange\<close>. The test \<open>typeof configParams[param] === 'number'\<close> reads the
  configuration \<open>configParams\<close> the callback closed over; the update, when one is queued,
  is applied to the state \<open>prev\<close>. When no update is queued (the \<open>console.warn\<close> branch)
  the state stays \<open>prev\<close>.
\<close>

definition handleParamChange ::
  "(string \<Rightarrow> jsnum) \<Rightarrow> config \<Rightarrow> param \<Rightarrow> js_value \<Rightarrow> config \<Rightarrow> config" where
  "handleParamChange stringToNumber configParams p v prev =
     (if typeof (configParams p) = TNumber then
        (let numValue = (if v = JNull \<or> v = JUndefined then NaN else Number stringToNumber v)
         in if \<not> isNaN numValue then updateConfigParam p (JNum numValue) prev
            else prev)
      else updateConfigParam p v prev)"

section \<open>Uploading the pile file (PileDataInput.tsx)\<close>





























section \<open>The engine's request and result (services/api.ts)\<close>



section \<open>The risk simulator\<close>











section \<open>Properties of the parameter handler\<close>

lemma isNaN_iff: "isNaN n \<longleftrightarrow> n = NaN"
  by (cases n) simp_all

text \<open>
  C10, as the code has it. When the current value of the named parameter is a number:
  an input that is \<open>null\<close>, \<open>undefined\<close> or converts to NaN leaves the whole
  configuration as it was; every other input (the infinities included) sets the named
  key to the converted number and leaves every other key as it was.
\<close>

theorem handleParamChange_frame:
  assumes "typeof (configParams p) = TNumber"
  shows "(v = JNull \<or> v = JUndefined \<or> Number stringToNumber v = NaN \<longrightarrow>
            handleParamChange stringToNumber configParams p v prev = prev)
       \<and> (v \<noteq> JNull \<and> v \<noteq> JUndefined \<and> Number stringToNumber v \<noteq> NaN \<longrightarrow>
            handleParamChange stringToNumber configParams p v prev p = JNum (Number stringToNumber v)
          \<and> (\<forall>q. q \<noteq> p \<longrightarrow> handleParamChange stringToNumber configParams p v prev q = prev q))"
  using assms by (auto simp: handleParamChange_def updateConfigParam_def isNaN_iff Let_def)

theorem handleParamChange_frame_witness:
  "typeof (defaultConfigParams Num_machines) = TNumber
   \<and> handleParamChange (\<lambda>s. NaN) defaultConfigParams Num_machines JNull defaultConfigParams
       = defaultConfigParams
   \<and> handleParamChange (\<lambda>s. NaN) defaultConfigParams Num_machines (JStr ''abc'') defaultConfigParams
       = defaultConfigParams
   \<and> handleParamChange (\<lambda>s. NaN) defaultConfigParams Num_machines (JNum (Finite 5)) defaultConfigParams
       Num_machines = JNum (Finite 5)
   \<and> handleParamChange (\<lambda>s. NaN) defaultConfigParams Num_machines (JNum (Finite 5)) defaultConfigParams
       Num_zones = JNum (Finite 3)"
proof -
  have t: "typeof (defaultConfigParams Num_machines) = TNumber" by simp
  have a: "handleParamChange (\<lambda>s. NaN) defaultConfigParams Num_machines JNull defaultConfigParams
             = defaultConfigParams"
    using handleParamChange_frame [where configParams = defaultConfigParams and p = Num_machines
        and v = JNull and stringToNumber = "\<lambda>s. NaN" and prev = defaultConfigParams] t by simp
  have b: "handleParamChange (\<lambda>s. NaN) defaultConfigParams Num_machines (JStr ''abc'')
             defaultConfigParams = defaultConfigParams"
    using handleParamChange_frame [where configParams = defaultConfigParams and p = Num_machines
        and v = "JStr ''abc''" and stringToNumber = "\<lambda>s. NaN" and prev = defaultConfigParams] t
    by simp
  have c: "handleParamChange (\<lambda>s. NaN) defaultConfigParams Num_machines (JNum (Finite 5))
             defaultConfigParams Num_machines = JNum (Finite 5)
         \<and> handleParamChange (\<lambda>s. NaN) defaultConfigParams Num_machines (JNum (Finite 5))
             defaultConfigParams Num_zones = JNum (Finite 3)"
    using handleParamChange_frame [where configParams = defaultConfigParams and p = Num_machines
        and v = "JNum (Finite 5)" and stringToNumber = "\<lambda>s. NaN" and prev = defaultConfigParams] t
    by simp
  from t a b c show ?thesis by blast
qed

text \<open>
  C10 as the claim words it fails: \<open>Infinity\<close> does not convert to a finite number, yet
  it is not NaN, so the handler stores it.
\<close>

theorem handleParamChange_infinity_counterexample:
  "typeof (defaultConfigParams Num_machines) = TNumber
   \<and> \<not> isFinite (Number (\<lambda>s. NaN) (JNum PosInfinity))
   \<and> handleParamChange (\<lambda>s. NaN) defaultConfigParams Num_machines (JNum PosInfinity)
        defaultConfigParams \<noteq> defaultConfigParams"
proof -
  have "handleParamChange (\<lambda>s. NaN) defaultConfigParams Num_machines (JNum PosInfinity)
          defaultConfigParams Num_machines = JNum PosInfinity"
    by (simp add: handleParamChange_def updateConfigParam_def)
  moreover have "defaultConfigParams Num_machines \<noteq> JNum PosInfinity" by simp
  ultimately have "handleParamChange (\<lambda>s. NaN) defaultConfigParams Num_machines (JNum PosInfinity)
          defaultConfigParams \<noteq> defaultConfigParams"
    by metis
  then show ?thesis by simp
qed

section \<open>Properties of the upload handler\<close>

















section \<open>Properties of the risk simulator\<close>










end
